theory Spec2Isabelle
  imports Complex_Main
begin

section \<open>Python values used by \<^verbatim>\<open>gdpc/http_interface.py\<close>\<close>

text \<open>
  A Python \<^verbatim>\<open>str\<close> is represented by the list of bytes of its UTF-8 form, so that
  \<^verbatim>\<open>bytes(s, "utf-8")\<close> keeps the representation, and splitting at the line feed (one
  byte that occurs in no multi-byte sequence) cuts at the same places.
\<close>

type_synonym bytes = string

definition bytes_utf8 :: "string \<Rightarrow> bytes" where
  "bytes_utf8 s = s"

text \<open>
  The exceptions that can pass through the module. \<open>RequestConnectionError\<close> is
  \<^verbatim>\<open>requests.exceptions.ConnectionError\<close>, the only class the module names. \<open>KeyError\<close>
  carries the missing key, \<open>TypeError\<close> the Python type name of the value that was
  subscripted; the other classes carry their message.
\<close>

datatype exn =
    RequestConnectionError string
  | JSONDecodeError string
  | KeyError string
  | TypeError string
  | OtherException string

fun is_RequestConnectionError :: "exn \<Rightarrow> bool" where
  "is_RequestConnectionError (RequestConnectionError m) = True"
| "is_RequestConnectionError e = False"

text \<open>What \<^verbatim>\<open>response.json()\<close> can deliver: the Python objects of the \<^verbatim>\<open>json\<close> module.\<close>

datatype pyfloat = Finite rat | PosInf | NegInf | NaN

datatype jvalue =
    JNull
  | JBool bool
  | JInt int
  | JFloat pyfloat
  | JStr string
  | JList "jvalue list"
  | JDict "(string \<times> jvalue) list"

text \<open>
  Python's \<^verbatim>\<open>v == n\<close> for a decoded JSON value and an \<^verbatim>\<open>int\<close>: numbers compare by
  value (\<^verbatim>\<open>-1.0 == -1\<close>, \<^verbatim>\<open>True == 1\<close>), every other value differs from an \<^verbatim>\<open>int\<close>.
\<close>

fun py_eq_int :: "jvalue \<Rightarrow> int \<Rightarrow> bool" where
  "py_eq_int (JInt i) n = (i = n)"
| "py_eq_int (JFloat (Finite r)) n = (r = of_int n)"
| "py_eq_int (JBool b) n = ((if b then 1 else 0) = n)"
| "py_eq_int v n = False"

fun type_name :: "jvalue \<Rightarrow> string" where
  "type_name JNull = ''NoneType''"
| "type_name (JBool b) = ''bool''"
| "type_name (JInt i) = ''int''"
| "type_name (JFloat f) = ''float''"
| "type_name (JStr s) = ''str''"
| "type_name (JList vs) = ''list''"
| "type_name (JDict kvs) = ''dict''"

text \<open>
  Python's \<^verbatim>\<open>v[key]\<close> with a string key: a \<^verbatim>\<open>dict\<close> yields the value or raises
  \<^verbatim>\<open>KeyError\<close>; every other JSON value raises \<^verbatim>\<open>TypeError\<close>. The keys of a \<^verbatim>\<open>dict\<close>
  are distinct, so the first entry found is the entry.
\<close>

fun getitem :: "jvalue \<Rightarrow> string \<Rightarrow> exn + jvalue" where
  "getitem (JDict kvs) key =
     (case map_of kvs key of None \<Rightarrow> Inl (KeyError key) | Some v \<Rightarrow> Inr v)"
| "getitem v key = Inl (TypeError (type_name v))"

text \<open>Python's \<^verbatim>\<open>s.split(sep)\<close> for a separator of one character.\<close>

fun str_split :: "char \<Rightarrow> string \<Rightarrow> string list" where
  "str_split sep [] = [[]]"
| "str_split sep (c # cs) =
     (if c = sep then [] # str_split sep cs
      else (case str_split sep cs of
              [] \<Rightarrow> [[c]]
            | l # ls \<Rightarrow> (c # l) # ls))"

text \<open>Python's \<^verbatim>\<open>str(n)\<close> for an \<^verbatim>\<open>int\<close>, as an f-string renders it.\<close>

function str_nat :: "nat \<Rightarrow> string" where
  "str_nat n =
     (if n < 10 then [char_of (48 + n)]
      else str_nat (n div 10) @ [char_of (48 + n mod 10)])"
  by pat_completeness auto
termination
  by (relation "measure (\<lambda>n. n)") auto

definition str_int :: "int \<Rightarrow> string" where
  "str_int i = (if i < 0 then CHR ''-'' # str_nat (nat (- i)) else str_nat (nat i))"

text \<open>The values a query parameter can take in this module.\<close>

datatype pyval = PNone | PBool bool | PInt int | PStr string

fun opt_int :: "int option \<Rightarrow> pyval" where
  "opt_int None = PNone"
| "opt_int (Some i) = PInt i"

fun opt_str :: "string option \<Rightarrow> pyval" where
  "opt_str None = PNone"
| "opt_str (Some s) = PStr s"


section \<open>Requests, responses and the world outside\<close>

text \<open>
  The arguments one call of \<^verbatim>\<open>requests.get\<close>, \<^verbatim>\<open>requests.put\<close> or \<^verbatim>\<open>requests.post\<close>
  receives. The parameter and header dictionaries are maps; an argument that is not
  passed is the empty map, \<open>None\<close> for the body. The timeout (seconds) is only handed on.
\<close>

record request =
  url :: string
  params :: "string \<rightharpoonup> pyval"
  headers :: "string \<rightharpoonup> string"
  data :: "bytes option"
  timeout :: "int option"

text \<open>
  The attributes of a \<^verbatim>\<open>requests.Response\<close> that the module reads. \<open>json\<close> is what
  \<^verbatim>\<open>response.json()\<close> returns or raises; it depends on the body alone, so two calls
  give the same.
\<close>

record response =
  status_code :: int
  ok :: bool
  text_str :: string
  content :: bytes
  json :: "exn + jvalue"

text \<open>
  What the module imports from outside the file, taken as parameters: the three functions of
  the HTTP library acting on the world \<open>'w\<close> (server and network), \<^verbatim>\<open>termcolor.colored\<close>
  (colour first, text second), the built-in \<^verbatim>\<open>str\<close> on an exception, and the table
  \<^verbatim>\<open>lookup.SUPPORTED_MINECRAFT_VERSIONS\<close>.
\<close>

record 'w externals =
  requests_get :: "request \<Rightarrow> 'w \<Rightarrow> (exn + response) \<times> 'w"
  requests_put :: "request \<Rightarrow> 'w \<Rightarrow> (exn + response) \<times> 'w"
  requests_post :: "request \<Rightarrow> 'w \<Rightarrow> (exn + response) \<times> 'w"
  colored :: "string \<Rightarrow> string \<Rightarrow> string"
  str_exn :: "exn \<Rightarrow> string"
  SUPPORTED_MINECRAFT_VERSIONS :: "string list"

text \<open>The class: its only field is the host.\<close>

record HTTPInterface =
  host :: string

text \<open>
  The state a method runs in: the object \<^verbatim>\<open>self\<close>, the world outside, what has been
  written to standard error (one entry for each call of \<^verbatim>\<open>eprint\<close>) and the seconds spent
  in \<^verbatim>\<open>time.sleep\<close>.
\<close>

record 'w state =
  self :: HTTPInterface
  world :: 'w
  stderr :: "string list"
  slept :: nat

text \<open>
  Modelled from the spec: \<^verbatim>\<open>eprint\<close> of \<^verbatim>\<open>gdpc/utility.py\<close> is not among the sources.
  The spec has the warnings and the chunk errors "printed to standard error".
\<close>

definition eprint :: "string \<Rightarrow> 'w state \<Rightarrow> 'w state" where
  "eprint msg s = s\<lparr>stderr := stderr s @ [msg]\<rparr>"

definition sleep :: "nat \<Rightarrow> 'w state \<Rightarrow> 'w state" where
  "sleep n s = s\<lparr>slept := slept s + n\<rparr>"


section \<open>The retrying call wrapper\<close>

text \<open>
  Modelled from the spec: \<^verbatim>\<open>withRetries\<close> of \<^verbatim>\<open>gdpc/utility.py\<close> is not among the
  sources. Section 4.1 of the spec: execute the operation; if it raises a transient
  connection-level failure, invoke the notification callback with the exception and the
  remaining retry count, then retry; after the retry budget is exhausted, propagate the
  final failure; a failure of any other kind surfaces at once. The count handed to the
  callback is the budget not yet spent when the failure occurred; a budget that is not
  positive is an exhausted one. The pause is the callback's (\<open>onRequestRetry\<close> below).
\<close>

function withRetries ::
  "('s \<Rightarrow> (exn + 'a) \<times> 's) \<Rightarrow> int \<Rightarrow> (exn \<Rightarrow> int \<Rightarrow> 's \<Rightarrow> 's) \<Rightarrow> 's \<Rightarrow> (exn + 'a) \<times> 's" where
  "withRetries operation retries onRetry s =
     (case operation s of
        (Inr v, s') \<Rightarrow> (Inr v, s')
      | (Inl e, s') \<Rightarrow>
          if is_RequestConnectionError e \<and> 0 < retries
          then withRetries operation (retries - 1) onRetry (onRetry e retries s')
          else (Inl e, s'))"
  by pat_completeness auto
termination
  by (relation "measure (\<lambda>(operation, retries, onRetry, s). nat retries)") auto

declare withRetries.simps [simp del]

text \<open>\<^verbatim>\<open>_onRequestRetry\<close> (an Isabelle name cannot start with an underscore).\<close>

definition onRequestRetry :: "'w externals \<Rightarrow> exn \<Rightarrow> int \<Rightarrow> 'w state \<Rightarrow> 'w state" where
  "onRequestRetry ext e retriesLeft s =
     sleep 3
       (eprint
          (colored ext ''yellow''
             (''HTTP request failed! Is Minecraft running? If so, try reducing your render distance.\<newline>''
              @ ''Error: '' @ str_exn ext e
              @ ''I'll retry in a bit ('' @ str_int retriesLeft @ '' retries left).\<newline>''))
          s)"

text \<open>
  \<^verbatim>\<open>functools.partial\<close> of a library function and its arguments: the operation with no
  argument that the wrapper runs. It acts on the world and on nothing else of the state.
\<close>

definition partial ::
  "(request \<Rightarrow> 'w \<Rightarrow> (exn + response) \<times> 'w) \<Rightarrow> request \<Rightarrow> 'w state \<Rightarrow> (exn + response) \<times> 'w state" where
  "partial f req s = (case f req (world s) of (r, w) \<Rightarrow> (r, s\<lparr>world := w\<rparr>))"

text \<open>\<^verbatim>\<open>_get\<close>, \<^verbatim>\<open>_put\<close> and \<^verbatim>\<open>_post\<close>.\<close>

definition priv_get ::
  "'w externals \<Rightarrow> request \<Rightarrow> int \<Rightarrow> 'w state \<Rightarrow> (exn + response) \<times> 'w state" where
  "priv_get ext req retries = withRetries (partial (requests_get ext) req) retries (onRequestRetry ext)"

definition priv_put ::
  "'w externals \<Rightarrow> request \<Rightarrow> int \<Rightarrow> 'w state \<Rightarrow> (exn + response) \<times> 'w state" where
  "priv_put ext req retries = withRetries (partial (requests_put ext) req) retries (onRequestRetry ext)"

definition priv_post ::
  "'w externals \<Rightarrow> request \<Rightarrow> int \<Rightarrow> 'w state \<Rightarrow> (exn + response) \<times> 'w state" where
  "priv_post ext req retries = withRetries (partial (requests_post ext) req) retries (onRequestRetry ext)"


section \<open>The class \<^verbatim>\<open>HTTPInterface\<close>\<close>

text \<open>\<^verbatim>\<open>__init__\<close>: the host argument is optional.\<close>

definition HTTPInterface_init :: "string option \<Rightarrow> HTTPInterface" where
  "HTTPInterface_init h =
     \<lparr>host = (case h of None \<Rightarrow> ''http://localhost:9000'' | Some v \<Rightarrow> v)\<rparr>"

text \<open>
  Each method first builds the arguments of its one HTTP call and then issues the call
  through the wrapper. The first part is a definition of its own here
  (\<open>getBlock_request\<close> for \<open>getBlock\<close>, and so on), taking \<^verbatim>\<open>self\<close>, whose host it
  reads. A statement that raises ends the method with that exception.
\<close>

definition and_then :: "exn + 'a \<Rightarrow> ('a \<Rightarrow> exn + 'b) \<Rightarrow> exn + 'b" where
  "and_then r k = (case r of Inl e \<Rightarrow> Inl e | Inr v \<Rightarrow> k v)"

subsection \<open>\<^verbatim>\<open>getBlock\<close>\<close>

definition getBlock_request ::
  "HTTPInterface \<Rightarrow> int \<Rightarrow> int \<Rightarrow> int \<Rightarrow> int option \<Rightarrow> int option \<Rightarrow> int option \<Rightarrow> string option
     \<Rightarrow> bool \<Rightarrow> bool \<Rightarrow> int option \<Rightarrow> request" where
  "getBlock_request this x y z dx dy dz dimension includeState includeData tmo =
     \<lparr>url = host this @ ''/blocks'',
      params =
        [''x'' \<mapsto> PInt x,
         ''y'' \<mapsto> PInt y,
         ''z'' \<mapsto> PInt z,
         ''dx'' \<mapsto> opt_int dx,
         ''dy'' \<mapsto> opt_int dy,
         ''dz'' \<mapsto> opt_int dz,
         ''includeState'' \<mapsto> (if includeState then PBool True else PNone),
         ''includeData'' \<mapsto> (if includeData then PBool True else PNone),
         ''dimension'' \<mapsto> opt_str dimension],
      headers = [''accept'' \<mapsto> ''application/json''],
      data = None,
      timeout = tmo\<rparr>"

definition getBlock ::
  "'w externals \<Rightarrow> int \<Rightarrow> int \<Rightarrow> int \<Rightarrow> int option \<Rightarrow> int option \<Rightarrow> int option \<Rightarrow> string option
     \<Rightarrow> bool \<Rightarrow> bool \<Rightarrow> int \<Rightarrow> int option \<Rightarrow> 'w state \<Rightarrow> (exn + jvalue) \<times> 'w state" where
  "getBlock ext x y z dx dy dz dimension includeState includeData retries tmo s =
     (case priv_get ext
             (getBlock_request (self s) x y z dx dy dz dimension includeState includeData tmo)
             retries s of
        (Inl e, s') \<Rightarrow> (Inl e, s')
      | (Inr response, s') \<Rightarrow> (json response, s'))"

subsection \<open>\<^verbatim>\<open>placeBlock\<close>\<close>

text \<open>The \<open>dimension\<close> argument is accepted; no statement of the method reads it.\<close>

definition placeBlock_request ::
  "HTTPInterface \<Rightarrow> int \<Rightarrow> int \<Rightarrow> int \<Rightarrow> string \<Rightarrow> string option \<Rightarrow> bool \<Rightarrow> bool \<Rightarrow> string
     \<Rightarrow> int option \<Rightarrow> request" where
  "placeBlock_request this x y z blockStr dimension doBlockUpdates spawnDrops customFlags tmo =
     (let blockUpdateParams =
            (if customFlags \<noteq> ''''
             then [''customFlags'' \<mapsto> PStr customFlags]
             else [''doBlockUpdates'' \<mapsto> PBool doBlockUpdates,
                   ''spawnDrops'' \<mapsto> PBool spawnDrops]);
          parameters = [''x'' \<mapsto> PInt x, ''y'' \<mapsto> PInt y, ''z'' \<mapsto> PInt z] ++ blockUpdateParams
      in \<lparr>url = host this @ ''/blocks'',
          params = parameters,
          headers = Map.empty,
          data = Some (bytes_utf8 blockStr),
          timeout = tmo\<rparr>)"

definition placeBlock ::
  "'w externals \<Rightarrow> int \<Rightarrow> int \<Rightarrow> int \<Rightarrow> string \<Rightarrow> string option \<Rightarrow> bool \<Rightarrow> bool \<Rightarrow> string
     \<Rightarrow> int \<Rightarrow> int option \<Rightarrow> 'w state \<Rightarrow> (exn + string list) \<times> 'w state" where
  "placeBlock ext x y z blockStr dimension doBlockUpdates spawnDrops customFlags retries tmo s =
     (case priv_put ext
             (placeBlock_request (self s) x y z blockStr dimension doBlockUpdates
                spawnDrops customFlags tmo)
             retries s of
        (Inl e, s') \<Rightarrow> (Inl e, s')
      | (Inr response, s') \<Rightarrow> (Inr (str_split CHR 0x0A (text_str response)), s'))"

subsection \<open>\<^verbatim>\<open>runCommand\<close>\<close>

definition runCommand_request :: "HTTPInterface \<Rightarrow> string \<Rightarrow> string option \<Rightarrow> int option \<Rightarrow> request" where
  "runCommand_request this command dimension tmo =
     \<lparr>url = host this @ ''/command'',
      params = [''dimension'' \<mapsto> opt_str dimension],
      headers = Map.empty,
      data = Some (bytes_utf8 command),
      timeout = tmo\<rparr>"

definition runCommand ::
  "'w externals \<Rightarrow> string \<Rightarrow> string option \<Rightarrow> int \<Rightarrow> int option \<Rightarrow> 'w state
     \<Rightarrow> (exn + string list) \<times> 'w state" where
  "runCommand ext command dimension retries tmo s =
     (case priv_post ext (runCommand_request (self s) command dimension tmo) retries s of
        (Inl e, s') \<Rightarrow> (Inl e, s')
      | (Inr response, s') \<Rightarrow> (Inr (str_split CHR 0x0A (text_str response)), s'))"

subsection \<open>\<^verbatim>\<open>getBuildArea\<close>\<close>

type_synonym bounds = "jvalue \<times> jvalue \<times> jvalue \<times> jvalue \<times> jvalue \<times> jvalue"

definition getBuildArea_request :: "HTTPInterface \<Rightarrow> int option \<Rightarrow> request" where
  "getBuildArea_request this tmo =
     \<lparr>url = host this @ ''/buildarea'',
      params = Map.empty,
      headers = Map.empty,
      data = None,
      timeout = tmo\<rparr>"

text \<open>
  The result is the pair \<^verbatim>\<open>(success, result)\<close>: \<open>Inl\<close> holds the error text, \<open>Inr\<close> the
  six values. \<^verbatim>\<open>not response.ok or response.json() == -1\<close> decodes the body only when
  the status is a success.
\<close>

definition getBuildArea ::
  "'w externals \<Rightarrow> int \<Rightarrow> int option \<Rightarrow> 'w state \<Rightarrow> (exn + bool \<times> (string + bounds)) \<times> 'w state" where
  "getBuildArea ext retries tmo s =
     (case priv_get ext (getBuildArea_request (self s) tmo) retries s of
        (Inl e, s') \<Rightarrow> (Inl e, s')
      | (Inr response, s') \<Rightarrow>
          (if \<not> ok response then (Inr (False, Inl (text_str response)), s')
           else
             (case json response of
                Inl e \<Rightarrow> (Inl e, s')
              | Inr j \<Rightarrow>
                  if py_eq_int j (- 1) then (Inr (False, Inl (text_str response)), s')
                  else
                    (and_then (json response) (\<lambda>buildAreaJson.
                     and_then (getitem buildAreaJson ''xFrom'') (\<lambda>x1.
                     and_then (getitem buildAreaJson ''yFrom'') (\<lambda>y1.
                     and_then (getitem buildAreaJson ''zFrom'') (\<lambda>z1.
                     and_then (getitem buildAreaJson ''xTo'') (\<lambda>x2.
                     and_then (getitem buildAreaJson ''yTo'') (\<lambda>y2.
                     and_then (getitem buildAreaJson ''zTo'') (\<lambda>z2.
                     Inr (True, Inr (x1, y1, z1, x2, y2, z2))))))))),
                     s'))))"

subsection \<open>\<^verbatim>\<open>getChunks\<close>\<close>

datatype chunk_data = Bytes bytes | Text string

definition getChunks_request ::
  "HTTPInterface \<Rightarrow> int \<Rightarrow> int \<Rightarrow> int \<Rightarrow> int \<Rightarrow> string option \<Rightarrow> bool \<Rightarrow> int option \<Rightarrow> request" where
  "getChunks_request this x z dx dz dimension asBytes tmo =
     (let acceptType = (if asBytes then ''application/octet-stream'' else ''text/plain'')
      in \<lparr>url = host this @ ''/chunks'',
          params =
            [''x'' \<mapsto> PInt x,
             ''z'' \<mapsto> PInt z,
             ''dx'' \<mapsto> PInt dx,
             ''dz'' \<mapsto> PInt dz,
             ''dimension'' \<mapsto> opt_str dimension],
          headers = [''Accept'' \<mapsto> acceptType],
          data = None,
          timeout = tmo\<rparr>)"

definition getChunks ::
  "'w externals \<Rightarrow> int \<Rightarrow> int \<Rightarrow> int \<Rightarrow> int \<Rightarrow> string option \<Rightarrow> bool \<Rightarrow> int \<Rightarrow> int option
     \<Rightarrow> 'w state \<Rightarrow> (exn + chunk_data) \<times> 'w state" where
  "getChunks ext x z dx dz dimension asBytes retries tmo s =
     (case priv_get ext (getChunks_request (self s) x z dx dz dimension asBytes tmo)
             retries s of
        (Inl e, s') \<Rightarrow> (Inl e, s')
      | (Inr response, s') \<Rightarrow>
          (let s'' = (if 400 \<le> status_code response
                      then eprint (''Error: '' @ text_str response) s'
                      else s')
           in (Inr (if asBytes then Bytes (content response) else Text (text_str response)),
               s'')))"

subsection \<open>\<^verbatim>\<open>getVersion\<close> and \<^verbatim>\<open>checkConnection\<close>\<close>

definition getVersion_request :: "HTTPInterface \<Rightarrow> int option \<Rightarrow> request" where
  "getVersion_request this tmo =
     \<lparr>url = host this @ ''/version'',
      params = Map.empty,
      headers = Map.empty,
      data = None,
      timeout = tmo\<rparr>"

definition getVersion ::
  "'w externals \<Rightarrow> int \<Rightarrow> int option \<Rightarrow> 'w state \<Rightarrow> (exn + string) \<times> 'w state" where
  "getVersion ext retries tmo s =
     (case priv_get ext (getVersion_request (self s) tmo) retries s of
        (Inl e, s') \<Rightarrow> (Inl e, s')
      | (Inr response, s') \<Rightarrow> (Inr (text_str response), s'))"

text \<open>
  The result is the pair \<^verbatim>\<open>(connected, versionSupported)\<close>; \<open>None\<close> is Python's
  \<^verbatim>\<open>None\<close>. Only \<^verbatim>\<open>RequestConnectionError\<close> is caught.
\<close>

definition checkConnection :: "'w externals \<Rightarrow> 'w state \<Rightarrow> (exn + bool \<times> bool option) \<times> 'w state" where
  "checkConnection ext s =
     (case getVersion ext 0 None s of
        (Inl e, s') \<Rightarrow>
          if is_RequestConnectionError e then (Inr (False, None), s') else (Inl e, s')
      | (Inr minecraftVersion, s') \<Rightarrow>
          (Inr (True, Some (minecraftVersion \<in> set (SUPPORTED_MINECRAFT_VERSIONS ext))), s'))"



section \<open>Observing a run\<close>

text \<open>
  To count what the wrapper does, the operation and the callback it is given keep a log,
  as a test double would: each attempt records its outcome, each notification its two
  arguments. The log rides beside the state and changes nothing else.
\<close>

datatype 'a event = Attempt "exn + 'a" | Notified exn int

definition logged ::
  "('s \<Rightarrow> (exn + 'a) \<times> 's) \<Rightarrow> 's \<times> 'a event list \<Rightarrow> (exn + 'a) \<times> 's \<times> 'a event list" where
  "logged operation = (\<lambda>(s, tr). case operation s of (r, s') \<Rightarrow> (r, s', tr @ [Attempt r]))"

definition logged_onRetry ::
  "(exn \<Rightarrow> int \<Rightarrow> 's \<Rightarrow> 's) \<Rightarrow> exn \<Rightarrow> int \<Rightarrow> 's \<times> 'a event list \<Rightarrow> 's \<times> 'a event list" where
  "logged_onRetry onRetry e k = (\<lambda>(s, tr). (onRetry e k s, tr @ [Notified e k]))"

fun attempts :: "'a event list \<Rightarrow> (exn + 'a) list" where
  "attempts [] = []"
| "attempts (Attempt r # tr) = r # attempts tr"
| "attempts (Notified e k # tr) = attempts tr"

fun notifications :: "'a event list \<Rightarrow> (exn \<times> int) list" where
  "notifications [] = []"
| "notifications (Attempt r # tr) = notifications tr"
| "notifications (Notified e k # tr) = (e, k) # notifications tr"

text \<open>
  Stand-ins for the outside, for running the methods on concrete inputs: a server that
  cannot be reached, a server that gives one fixed answer, and an interface made with the
  default host in a fresh state.
\<close>

definition refusing :: "request \<Rightarrow> unit \<Rightarrow> (exn + response) \<times> unit" where
  "refusing req w = (Inl (RequestConnectionError ''Connection refused''), w)"

definition answering :: "response \<Rightarrow> request \<Rightarrow> unit \<Rightarrow> (exn + response) \<times> unit" where
  "answering r req w = (Inr r, w)"

definition plain_reply :: "int \<Rightarrow> string \<Rightarrow> response" where
  "plain_reply code body =
     \<lparr>status_code = code, ok = (code < 400), text_str = body, content = body,
      json = Inl (JSONDecodeError ''Expecting value'')\<rparr>"

definition json_reply :: "string \<Rightarrow> jvalue \<Rightarrow> response" where
  "json_reply body v =
     \<lparr>status_code = 200, ok = True, text_str = body, content = body, json = Inr v\<rparr>"

definition stand_in :: "(request \<Rightarrow> unit \<Rightarrow> (exn + response) \<times> unit) \<Rightarrow> unit externals" where
  "stand_in f =
     \<lparr>requests_get = f, requests_put = f, requests_post = f,
      colored = (\<lambda>color txt. txt),
      str_exn = (\<lambda>e. ''''),
      SUPPORTED_MINECRAFT_VERSIONS = [''1.19.2'', ''1.20.2'']\<rparr>"

definition fresh :: "unit state" where
  "fresh = \<lparr>self = HTTPInterface_init None, world = (), stderr = [], slept = 0\<rparr>"

text \<open>
  To see which requests a method sends, the three library functions can be wrapped so that
  each call is noted, with its verb and its arguments, in a list kept beside the world.
  The wrapped functions answer as the ones they wrap.
\<close>

datatype verb = GET | PUT | POST

definition recording :: "'w externals \<Rightarrow> ('w \<times> (verb \<times> request) list) externals" where
  "recording ext =
     \<lparr>requests_get = (\<lambda>req (w, calls).
        case requests_get ext req w of (r, w') \<Rightarrow> (r, w', calls @ [(GET, req)])),
      requests_put = (\<lambda>req (w, calls).
        case requests_put ext req w of (r, w') \<Rightarrow> (r, w', calls @ [(PUT, req)])),
      requests_post = (\<lambda>req (w, calls).
        case requests_post ext req w of (r, w') \<Rightarrow> (r, w', calls @ [(POST, req)])),
      colored = colored ext,
      str_exn = str_exn ext,
      SUPPORTED_MINECRAFT_VERSIONS = SUPPORTED_MINECRAFT_VERSIONS ext\<rparr>"

definition sent :: "('w \<times> (verb \<times> request) list) state \<Rightarrow> (verb \<times> request) list" where
  "sent s = snd (world s)"

definition unrecorded :: "('w \<times> (verb \<times> request) list) state \<Rightarrow> 'w state" where
  "unrecorded s = \<lparr>self = self s, world = fst (world s), stderr = stderr s, slept = slept s\<rparr>"

definition verb_url :: "verb \<times> request \<Rightarrow> verb \<times> string" where
  "verb_url = (\<lambda>(v, req). (v, url req))"

definition update_params :: "verb \<times> request \<Rightarrow> pyval option \<times> pyval option \<times> pyval option" where
  "update_params =
     (\<lambda>(v, req). (params req ''customFlags'', params req ''doBlockUpdates'',
                   params req ''spawnDrops''))"

definition fresh_recording :: "(unit \<times> (verb \<times> request) list) state" where
  "fresh_recording =
     \<lparr>self = HTTPInterface_init None, world = ((), []), stderr = [], slept = 0\<rparr>"



section \<open>Facts about the helpers\<close>

text \<open>
  One run of the wrapper whose first attempt either succeeds, or fails in a way that is
  not retried, is that attempt.
\<close>

lemma withRetries_one_attempt:
  "operation s = (r, s') \<Longrightarrow>
   (\<forall>e. r = Inl e \<longrightarrow> \<not> (is_RequestConnectionError e \<and> 0 < retries)) \<Longrightarrow>
   withRetries operation retries onRetry s = (r, s')"
  by (subst withRetries.simps) (auto split: sum.splits)

text \<open>Splitting yields one piece more than there are separators.\<close>

lemma length_str_split: "length (str_split sep s) = Suc (count_list s sep)"
  by (induction s) (auto split: list.splits)



section \<open>Facts about the wrapper\<close>

text \<open>What the operation and the callback both leave alone, a run of the wrapper leaves alone.\<close>

lemma withRetries_keeps:
  assumes "\<And>s. g (snd (operation s)) = g s" and "\<And>e k s. g (onRetry e k s) = g s"
  shows "g (snd (withRetries operation retries onRetry s)) = g s"
  using assms
proof (induction operation retries onRetry s rule: withRetries.induct)
  case (1 operation retries onRetry s)
  obtain r s1 where o: "operation s = (r, s1)" by (cases "operation s")
  have g1: "g s1 = g s" using "1.prems"(1) [of s] o by simp
  show ?case
  proof (cases r)
    case (Inr v)
    then show ?thesis using o g1 by (subst withRetries.simps) simp
  next
    case (Inl e)
    show ?thesis
    proof (cases "is_RequestConnectionError e \<and> 0 < retries")
      case True
      have "g (snd (withRetries operation (retries - 1) onRetry (onRetry e retries s1)))
              = g (onRetry e retries s1)"
        using "1.IH" [OF o [symmetric] Inl True] "1.prems" by simp
      then show ?thesis
        using o Inl True g1 "1.prems"(2) by (subst withRetries.simps) simp
    next
      case False
      then show ?thesis using o Inl g1 by (subst withRetries.simps) auto
    qed
  qed
qed

lemma attempts_append [simp]: "attempts (tr @ tr') = attempts tr @ attempts tr'"
  by (induction tr rule: attempts.induct) simp_all

lemma notifications_append [simp]:
  "notifications (tr @ tr') = notifications tr @ notifications tr'"
  by (induction tr rule: notifications.induct) simp_all

lemma logged_apply:
  "logged operation (s, tr) = (case operation s of (r, s') \<Rightarrow> (r, s', tr @ [Attempt r]))"
  by (simp add: logged_def)

lemma logged_onRetry_apply:
  "logged_onRetry onRetry e k (s, tr) = (onRetry e k s, tr @ [Notified e k])"
  by (simp add: logged_onRetry_def)

text \<open>Keeping the log changes neither the result nor the state of a run.\<close>

lemma logged_faithful:
  "(case withRetries (logged operation) retries (logged_onRetry onRetry) (s, tr) of
      (r, s', tr') \<Rightarrow> (r, s')) = withRetries operation retries onRetry s"
proof (induction operation retries onRetry s arbitrary: tr rule: withRetries.induct)
  case (1 operation retries onRetry s)
  obtain r s1 where o: "operation s = (r, s1)" by (cases "operation s")
  show ?case
  proof (cases r)
    case (Inr v)
    then show ?thesis
      using o by (subst withRetries.simps, subst (2) withRetries.simps) (simp add: logged_apply)
  next
    case (Inl e)
    show ?thesis
    proof (cases "is_RequestConnectionError e \<and> 0 < retries")
      case True
      show ?thesis
        using "1.IH" [OF o [symmetric] Inl True, of "tr @ [Attempt r, Notified e retries]"] o Inl True
        by (subst withRetries.simps, subst (2) withRetries.simps)
           (simp add: logged_apply logged_onRetry_apply)
    next
      case False
      then show ?thesis
        using o Inl
        by (subst withRetries.simps, subst (2) withRetries.simps) (auto simp: logged_apply)
    qed
  qed
qed

lemma countdown_Suc:
  "map (\<lambda>i. int (Suc n) - int i) [0..<Suc n] = int (Suc n) # map (\<lambda>i. int n - int i) [0..<n]"
proof -
  have "[0..<Suc n] = 0 # map Suc [0..<n]"
    by (simp add: upt_conv_Cons map_Suc_upt del: upt_Suc)
  then show ?thesis by (simp add: comp_def del: upt_Suc)
qed

text \<open>
  A run with a budget of \<open>n\<close> on an operation that always fails to connect, started with
  any log: what it appends to the log.
\<close>

lemma always_failing_run:
  assumes fails: "\<forall>s. \<exists>m. fst (operation s) = Inl (RequestConnectionError m)"
  shows "\<exists>r s' tr1.
           withRetries (logged operation) (int n) (logged_onRetry onRetry) (s, tr0) = (r, s', tr0 @ tr1)
         \<and> length (attempts tr1) = n + 1
         \<and> length (notifications tr1) = n
         \<and> map snd (notifications tr1) = map (\<lambda>i. int n - int i) [0..<n]
         \<and> map (Inl \<circ> fst) (notifications tr1) = butlast (attempts tr1)
         \<and> r = last (attempts tr1)
         \<and> (\<exists>m. r = Inl (RequestConnectionError m))"
proof (induction n arbitrary: s tr0)
  case 0
  obtain m s1 where o: "operation s = (Inl (RequestConnectionError m), s1)"
    using fails [rule_format, of s] by (cases "operation s") auto
  have "withRetries (logged operation) 0 (logged_onRetry onRetry) (s, tr0)
          = (Inl (RequestConnectionError m), s1, tr0 @ [Attempt (Inl (RequestConnectionError m))])"
    using o by (subst withRetries.simps) (simp add: logged_apply)
  then show ?case by simp
next
  case (Suc n)
  obtain m s1 where o: "operation s = (Inl (RequestConnectionError m), s1)"
    using fails [rule_format, of s] by (cases "operation s") auto
  let ?e = "RequestConnectionError m"
  let ?tr = "tr0 @ [Attempt (Inl ?e), Notified ?e (int (Suc n))]"
  from Suc.IH [of "onRetry ?e (int (Suc n)) s1" ?tr] obtain r s' tr1 where
    run: "withRetries (logged operation) (int n) (logged_onRetry onRetry)
            (onRetry ?e (int (Suc n)) s1, ?tr) = (r, s', ?tr @ tr1)"
    and la: "length (attempts tr1) = n + 1"
    and ln: "length (notifications tr1) = n"
    and cnt: "map snd (notifications tr1) = map (\<lambda>i. int n - int i) [0..<n]"
    and exs: "map (Inl \<circ> fst) (notifications tr1) = butlast (attempts tr1)"
    and res: "r = last (attempts tr1)"
    and conn: "\<exists>m. r = Inl (RequestConnectionError m)"
    by blast
  have ne: "attempts tr1 \<noteq> []" using la by auto
  let ?tr1 = "[Attempt (Inl ?e), Notified ?e (int (Suc n))] @ tr1"
  have step: "withRetries (logged operation) (int (Suc n)) (logged_onRetry onRetry) (s, tr0)
          = (r, s', tr0 @ ?tr1)"
    using o run by (subst withRetries.simps) (simp add: logged_apply logged_onRetry_apply)
  have c: "map snd (notifications ?tr1) = map (\<lambda>i. int (Suc n) - int i) [0..<Suc n]"
    unfolding countdown_Suc using cnt by simp
  have "length (attempts ?tr1) = Suc n + 1" "length (notifications ?tr1) = Suc n"
    "map (Inl \<circ> fst) (notifications ?tr1) = butlast (attempts ?tr1)"
    "r = last (attempts ?tr1)"
    using la ln exs res ne by simp_all
  with step c conn show ?case by blast
qed

text \<open>The pieces of a method's call leave the object alone.\<close>

lemma partial_keeps_self: "self (snd (partial f req s)) = self s"
  by (simp add: partial_def split: prod.splits)

lemma onRequestRetry_keeps_self: "self (onRequestRetry ext e k s) = self s"
  by (simp add: onRequestRetry_def sleep_def eprint_def)

lemma priv_keeps_self:
  "self (snd (priv_get ext req n s)) = self s"
  "self (snd (priv_put ext req n s)) = self s"
  "self (snd (priv_post ext req n s)) = self s"
  unfolding priv_get_def priv_put_def priv_post_def
  by (rule withRetries_keeps, rule partial_keeps_self, rule onRequestRetry_keeps_self)+

lemma getVersion_keeps_self: "self (snd (getVersion ext n tmo s)) = self s"
  using priv_keeps_self(1) [of ext "getVersion_request (self s) tmo" n s]
  by (auto simp: getVersion_def split: prod.splits sum.splits)

text \<open>The stand-ins, run through the wrapper.\<close>

lemma stand_in_fields:
  "requests_get (stand_in f) = f" "requests_put (stand_in f) = f" "requests_post (stand_in f) = f"
  "SUPPORTED_MINECRAFT_VERSIONS (stand_in f) = [''1.19.2'', ''1.20.2'']"
  by (simp_all add: stand_in_def)

lemma stand_in_answer:
  "withRetries (partial (answering r) req) retries onRetry s = (Inr r, s)"
  by (rule withRetries_one_attempt) (simp_all add: partial_def answering_def)

lemma stand_in_refuse:
  "withRetries (partial refusing req) 0 onRetry s
     = (Inl (RequestConnectionError ''Connection refused''), s)"
  by (rule withRetries_one_attempt) (simp_all add: partial_def refusing_def)

lemma stand_in_get:
  "priv_get (stand_in (answering r)) req n s = (Inr r, s)"
  "priv_put (stand_in (answering r)) req n s = (Inr r, s)"
  "priv_post (stand_in (answering r)) req n s = (Inr r, s)"
  by (simp_all add: priv_get_def priv_put_def priv_post_def stand_in_fields stand_in_answer)

lemma getVersion_refusing:
  "getVersion (stand_in refusing) 0 None fresh
     = (Inl (RequestConnectionError ''Connection refused''), fresh)"
  by (simp add: getVersion_def priv_get_def stand_in_fields stand_in_refuse)

lemma getVersion_answering:
  "getVersion (stand_in (answering r)) n None fresh = (Inr (text_str r), fresh)"
  by (simp add: getVersion_def stand_in_get)

text \<open>Reading a chain of subscripts that all succeed.\<close>

lemma and_then_Inr: "and_then r k = Inr v \<longleftrightarrow> (\<exists>a. r = Inr a \<and> k a = Inr v)"
  by (cases r) (simp_all add: and_then_def)

lemma getitem_Inr: "getitem j key = Inr v \<longleftrightarrow> (\<exists>kvs. j = JDict kvs \<and> map_of kvs key = Some v)"
  by (cases j) (auto split: option.splits)


section \<open>Facts about the recorded requests\<close>

text \<open>
  A call through the wrapper sends its request once or more, and nothing else; so each method
  sends the request it built, once or more, and nothing else.
\<close>

lemma withRetries_sends:
  assumes "\<And>s. sent (snd (operation s)) = sent s @ [c]"
    and "\<And>e k s. sent (onRetry e k s) = sent s"
  shows "\<exists>k. sent (snd (withRetries operation retries onRetry s)) = sent s @ replicate (Suc k) c"
  using assms
proof (induction operation retries onRetry s rule: withRetries.induct)
  case (1 operation retries onRetry s)
  obtain r s1 where o: "operation s = (r, s1)" by (cases "operation s")
  have s1: "sent s1 = sent s @ [c]" using "1.prems"(1) [of s] o by simp
  show ?case
  proof (cases r)
    case (Inr v)
    then have "sent (snd (withRetries operation retries onRetry s)) = sent s @ replicate (Suc 0) c"
      using o s1 by (subst withRetries.simps) simp
    then show ?thesis by blast
  next
    case (Inl e)
    show ?thesis
    proof (cases "is_RequestConnectionError e \<and> 0 < retries")
      case True
      from "1.IH" [OF o [symmetric] Inl True] "1.prems" obtain k where
        "sent (snd (withRetries operation (retries - 1) onRetry (onRetry e retries s1)))
           = sent (onRetry e retries s1) @ replicate (Suc k) c"
        by blast
      then have "sent (snd (withRetries operation retries onRetry s))
           = sent s @ replicate (Suc (Suc k)) c"
        using o Inl True s1 "1.prems"(2) by (subst withRetries.simps) simp
      then show ?thesis by blast
    next
      case False
      then have "sent (snd (withRetries operation retries onRetry s)) = sent s @ replicate (Suc 0) c"
        using o Inl s1 by (subst withRetries.simps) auto
      then show ?thesis by blast
    qed
  qed
qed

lemma recording_fields:
  "requests_get (recording ext) req (w, calls)
     = (case requests_get ext req w of (r, w') \<Rightarrow> (r, w', calls @ [(GET, req)]))"
  "requests_put (recording ext) req (w, calls)
     = (case requests_put ext req w of (r, w') \<Rightarrow> (r, w', calls @ [(PUT, req)]))"
  "requests_post (recording ext) req (w, calls)
     = (case requests_post ext req w of (r, w') \<Rightarrow> (r, w', calls @ [(POST, req)]))"
  by (simp_all add: recording_def)

lemma partial_recording_sends:
  "sent (snd (partial (requests_get (recording ext)) req s)) = sent s @ [(GET, req)]"
  "sent (snd (partial (requests_put (recording ext)) req s)) = sent s @ [(PUT, req)]"
  "sent (snd (partial (requests_post (recording ext)) req s)) = sent s @ [(POST, req)]"
  by (cases "world s"; simp add: partial_def sent_def recording_fields split: prod.splits)+

lemma onRequestRetry_keeps_sent: "sent (onRequestRetry ext e k s) = sent s"
  by (simp add: onRequestRetry_def sleep_def eprint_def sent_def)

lemma priv_sends:
  "\<exists>k. sent (snd (priv_get (recording ext) req n s)) = sent s @ replicate (Suc k) (GET, req)"
  "\<exists>k. sent (snd (priv_put (recording ext) req n s)) = sent s @ replicate (Suc k) (PUT, req)"
  "\<exists>k. sent (snd (priv_post (recording ext) req n s)) = sent s @ replicate (Suc k) (POST, req)"
  unfolding priv_get_def priv_put_def priv_post_def
  by (rule withRetries_sends, rule partial_recording_sends, rule onRequestRetry_keeps_sent)+

lemma priv_sends_set:
  assumes "sent s = []"
  shows "set (sent (snd (priv_get (recording ext) req n s))) = {(GET, req)}"
    and "set (sent (snd (priv_put (recording ext) req n s))) = {(PUT, req)}"
    and "set (sent (snd (priv_post (recording ext) req n s))) = {(POST, req)}"
  using priv_sends [of ext req n s] assms by (auto simp: set_replicate_conv_if split: if_splits)

lemma eprint_keeps_sent: "sent (eprint m s) = sent s"
  by (simp add: eprint_def sent_def)

lemma method_state:
  "snd (getBlock ext x y z dx dy dz dimension includeState includeData retries tmo s)
     = snd (priv_get ext
              (getBlock_request (self s) x y z dx dy dz dimension includeState includeData tmo)
              retries s)"
  "snd (placeBlock ext x y z blockStr dimension doBlockUpdates spawnDrops customFlags retries tmo s)
     = snd (priv_put ext
              (placeBlock_request (self s) x y z blockStr dimension doBlockUpdates spawnDrops
                 customFlags tmo)
              retries s)"
  "snd (runCommand ext command dimension retries tmo s)
     = snd (priv_post ext (runCommand_request (self s) command dimension tmo) retries s)"
  "snd (getBuildArea ext retries tmo s)
     = snd (priv_get ext (getBuildArea_request (self s) tmo) retries s)"
  "snd (getVersion ext retries tmo s)
     = snd (priv_get ext (getVersion_request (self s) tmo) retries s)"
  "snd (checkConnection ext s)
     = snd (priv_get ext (getVersion_request (self s) None) 0 s)"
  by (simp_all add: getBlock_def placeBlock_def runCommand_def getBuildArea_def getVersion_def
      checkConnection_def split: prod.splits sum.splits)

lemma getChunks_sent:
  "sent (snd (getChunks ext x z dx dz dimension asBytes retries tmo s))
     = sent (snd (priv_get ext (getChunks_request (self s) x z dx dz dimension asBytes tmo)
                    retries s))"
  by (simp add: getChunks_def Let_def eprint_keeps_sent split: prod.splits sum.splits)

lemma methods_send:
  assumes "sent s = []"
  shows "set (sent (snd (getBlock (recording ext) x y z dx dy dz dimension includeState includeData
                          retries tmo s)))
           = {(GET, getBlock_request (self s) x y z dx dy dz dimension includeState includeData tmo)}"
    and "set (sent (snd (placeBlock (recording ext) x y z blockStr dimension doBlockUpdates spawnDrops
                          customFlags retries tmo s)))
           = {(PUT, placeBlock_request (self s) x y z blockStr dimension doBlockUpdates spawnDrops
                      customFlags tmo)}"
    and "set (sent (snd (runCommand (recording ext) command dimension retries tmo s)))
           = {(POST, runCommand_request (self s) command dimension tmo)}"
    and "set (sent (snd (getBuildArea (recording ext) retries tmo s)))
           = {(GET, getBuildArea_request (self s) tmo)}"
    and "set (sent (snd (getChunks (recording ext) cx cz cdx cdz dimension asBytes retries tmo s)))
           = {(GET, getChunks_request (self s) cx cz cdx cdz dimension asBytes tmo)}"
    and "set (sent (snd (getVersion (recording ext) retries tmo s)))
           = {(GET, getVersion_request (self s) tmo)}"
    and "set (sent (snd (checkConnection (recording ext) s)))
           = {(GET, getVersion_request (self s) None)}"
  by (simp_all only: method_state getChunks_sent priv_sends_set [OF assms])

lemma request_urls:
  "url (getBlock_request this x y z dx dy dz dimension includeState includeData tmo)
       = host this @ ''/blocks''"
  "url (placeBlock_request this x y z blockStr dimension doBlockUpdates spawnDrops customFlags tmo)
       = host this @ ''/blocks''"
  "url (runCommand_request this command dimension tmo) = host this @ ''/command''"
  "url (getBuildArea_request this tmo) = host this @ ''/buildarea''"
  "url (getChunks_request this cx cz cdx cdz dimension asBytes tmo) = host this @ ''/chunks''"
  "url (getVersion_request this tmo) = host this @ ''/version''"
  by (simp_all add: getBlock_request_def placeBlock_request_def
      runCommand_request_def getBuildArea_request_def getChunks_request_def
      getVersion_request_def Let_def)

lemma placeBlock_request_params:
  "customFlags \<noteq> '''' \<Longrightarrow>
     update_params (v, placeBlock_request this x y z blockStr dimension doBlockUpdates spawnDrops
                         customFlags tmo)
       = (Some (PStr customFlags), None, None)"
  "update_params (v, placeBlock_request this x y z blockStr dimension doBlockUpdates spawnDrops
                         '''' tmo)
       = (None, Some (PBool doBlockUpdates), Some (PBool spawnDrops))"
  by (simp_all add: update_params_def placeBlock_request_def Let_def map_add_def)

lemma sent_fresh_recording: "sent fresh_recording = []"
  by (simp add: sent_def fresh_recording_def)

lemma host_fresh_recording: "host (self fresh_recording) = ''http://localhost:9000''"
  by (simp add: fresh_recording_def HTTPInterface_init_def)

text \<open>
  Noting the calls changes nothing else: with the noted calls dropped from the state, a run
  against the wrapped functions is the run against the functions they wrap.
\<close>

lemma withRetries_simulation:
  assumes "\<And>s t. R s t \<Longrightarrow> fst (op1 s) = fst (op2 t) \<and> R (snd (op1 s)) (snd (op2 t))"
    and "\<And>e k s t. R s t \<Longrightarrow> R (cb1 e k s) (cb2 e k t)"
    and "R s t"
  shows "fst (withRetries op1 n cb1 s) = fst (withRetries op2 n cb2 t)
       \<and> R (snd (withRetries op1 n cb1 s)) (snd (withRetries op2 n cb2 t))"
  using assms
proof (induction op1 n cb1 s arbitrary: t rule: withRetries.induct)
  case (1 op1 n cb1 s)
  obtain r s1 where o1: "op1 s = (r, s1)" by (cases "op1 s")
  obtain r' t1 where o2: "op2 t = (r', t1)" by (cases "op2 t")
  have rr: "r' = r" and R1: "R s1 t1"
    using "1.prems"(1) [OF "1.prems"(3)] o1 o2 by simp_all
  show ?case
  proof (cases r)
    case (Inr v)
    have "withRetries op1 n cb1 s = (Inr v, s1)" "withRetries op2 n cb2 t = (Inr v, t1)"
      using o1 o2 rr Inr by (subst withRetries.simps, simp)+
    then show ?thesis using R1 by simp
  next
    case (Inl e)
    show ?thesis
    proof (cases "is_RequestConnectionError e \<and> 0 < n")
      case True
      have R2: "R (cb1 e n s1) (cb2 e n t1)" using "1.prems"(2) [OF R1] .
      have "withRetries op1 n cb1 s = withRetries op1 (n - 1) cb1 (cb1 e n s1)"
        "withRetries op2 n cb2 t = withRetries op2 (n - 1) cb2 (cb2 e n t1)"
        using o1 o2 rr Inl True by (subst withRetries.simps, simp)+
      then show ?thesis
        using "1.IH" [OF o1 [symmetric] Inl True "1.prems"(1) "1.prems"(2) R2] by simp
    next
      case False
      have "withRetries op1 n cb1 s = (Inl e, s1)" "withRetries op2 n cb2 t = (Inl e, t1)"
        using o1 o2 rr Inl False by (subst withRetries.simps, auto)+
      then show ?thesis using R1 by simp
    qed
  qed
qed

lemma unrecorded_fields [simp]:
  "self (unrecorded s) = self s"
  "world (unrecorded s) = fst (world s)"
  "stderr (unrecorded s) = stderr s"
  "slept (unrecorded s) = slept s"
  by (simp_all add: unrecorded_def)

lemma partial_unrecorded:
  "fst (partial (requests_get (recording ext)) req s) = fst (partial (requests_get ext) req (unrecorded s))
   \<and> unrecorded (snd (partial (requests_get (recording ext)) req s))
       = snd (partial (requests_get ext) req (unrecorded s))"
  "fst (partial (requests_put (recording ext)) req s) = fst (partial (requests_put ext) req (unrecorded s))
   \<and> unrecorded (snd (partial (requests_put (recording ext)) req s))
       = snd (partial (requests_put ext) req (unrecorded s))"
  "fst (partial (requests_post (recording ext)) req s) = fst (partial (requests_post ext) req (unrecorded s))
   \<and> unrecorded (snd (partial (requests_post (recording ext)) req s))
       = snd (partial (requests_post ext) req (unrecorded s))"
  by (cases "world s"; simp add: partial_def recording_fields unrecorded_def split: prod.splits)+

lemma onRequestRetry_unrecorded:
  "unrecorded (onRequestRetry (recording ext) e k s) = onRequestRetry ext e k (unrecorded s)"
  by (simp add: onRequestRetry_def sleep_def eprint_def unrecorded_def recording_def)

lemma priv_unrecorded:
  "fst (priv_get (recording ext) req n s) = fst (priv_get ext req n (unrecorded s))
   \<and> unrecorded (snd (priv_get (recording ext) req n s)) = snd (priv_get ext req n (unrecorded s))"
  "fst (priv_put (recording ext) req n s) = fst (priv_put ext req n (unrecorded s))
   \<and> unrecorded (snd (priv_put (recording ext) req n s)) = snd (priv_put ext req n (unrecorded s))"
  "fst (priv_post (recording ext) req n s) = fst (priv_post ext req n (unrecorded s))
   \<and> unrecorded (snd (priv_post (recording ext) req n s)) = snd (priv_post ext req n (unrecorded s))"
  unfolding priv_get_def priv_put_def priv_post_def
  by (rule withRetries_simulation [where R = "\<lambda>s t. unrecorded s = t"];
      simp add: partial_unrecorded onRequestRetry_unrecorded)+

lemma recording_SUPPORTED [simp]:
  "SUPPORTED_MINECRAFT_VERSIONS (recording ext) = SUPPORTED_MINECRAFT_VERSIONS ext"
  by (simp add: recording_def)

lemma recording_faithful:
  "fst (getBlock (recording ext) x y z dx dy dz dimension includeState includeData retries tmo s)
     = fst (getBlock ext x y z dx dy dz dimension includeState includeData retries tmo (unrecorded s))"
  "fst (placeBlock (recording ext) x y z blockStr dimension doBlockUpdates spawnDrops customFlags
          retries tmo s)
     = fst (placeBlock ext x y z blockStr dimension doBlockUpdates spawnDrops customFlags
              retries tmo (unrecorded s))"
  "fst (runCommand (recording ext) command dimension retries tmo s)
     = fst (runCommand ext command dimension retries tmo (unrecorded s))"
  "fst (getBuildArea (recording ext) retries tmo s)
     = fst (getBuildArea ext retries tmo (unrecorded s))"
  "fst (getChunks (recording ext) cx cz cdx cdz dimension asBytes retries tmo s)
     = fst (getChunks ext cx cz cdx cdz dimension asBytes retries tmo (unrecorded s))"
  "fst (getVersion (recording ext) retries tmo s)
     = fst (getVersion ext retries tmo (unrecorded s))"
  "fst (checkConnection (recording ext) s) = fst (checkConnection ext (unrecorded s))"
proof -
  show "fst (getBlock (recording ext) x y z dx dy dz dimension includeState includeData retries tmo s)
     = fst (getBlock ext x y z dx dy dz dimension includeState includeData retries tmo (unrecorded s))"
    using priv_unrecorded(1) [of ext "getBlock_request (self s) x y z dx dy dz dimension includeState includeData tmo" retries s]
    by (cases "priv_get (recording ext) (getBlock_request (self s) x y z dx dy dz dimension includeState includeData tmo) retries s";
        cases "priv_get ext (getBlock_request (self s) x y z dx dy dz dimension includeState includeData tmo) retries (unrecorded s)";
        simp add: getBlock_def split: sum.splits)
  show "fst (placeBlock (recording ext) x y z blockStr dimension doBlockUpdates spawnDrops customFlags
          retries tmo s)
     = fst (placeBlock ext x y z blockStr dimension doBlockUpdates spawnDrops customFlags
              retries tmo (unrecorded s))"
    using priv_unrecorded(2) [of ext "placeBlock_request (self s) x y z blockStr dimension doBlockUpdates spawnDrops customFlags tmo" retries s]
    by (cases "priv_put (recording ext) (placeBlock_request (self s) x y z blockStr dimension doBlockUpdates spawnDrops customFlags tmo) retries s";
        cases "priv_put ext (placeBlock_request (self s) x y z blockStr dimension doBlockUpdates spawnDrops customFlags tmo) retries (unrecorded s)";
        simp add: placeBlock_def split: sum.splits)
  show "fst (runCommand (recording ext) command dimension retries tmo s)
     = fst (runCommand ext command dimension retries tmo (unrecorded s))"
    using priv_unrecorded(3) [of ext "runCommand_request (self s) command dimension tmo" retries s]
    by (cases "priv_post (recording ext) (runCommand_request (self s) command dimension tmo) retries s";
        cases "priv_post ext (runCommand_request (self s) command dimension tmo) retries (unrecorded s)";
        simp add: runCommand_def split: sum.splits)
  show "fst (getBuildArea (recording ext) retries tmo s)
     = fst (getBuildArea ext retries tmo (unrecorded s))"
    using priv_unrecorded(1) [of ext "getBuildArea_request (self s) tmo" retries s]
    by (cases "priv_get (recording ext) (getBuildArea_request (self s) tmo) retries s";
        cases "priv_get ext (getBuildArea_request (self s) tmo) retries (unrecorded s)";
        simp add: getBuildArea_def split: sum.splits)
  show "fst (getChunks (recording ext) cx cz cdx cdz dimension asBytes retries tmo s)
     = fst (getChunks ext cx cz cdx cdz dimension asBytes retries tmo (unrecorded s))"
    using priv_unrecorded(1) [of ext "getChunks_request (self s) cx cz cdx cdz dimension asBytes tmo" retries s]
    by (cases "priv_get (recording ext) (getChunks_request (self s) cx cz cdx cdz dimension asBytes tmo) retries s";
        cases "priv_get ext (getChunks_request (self s) cx cz cdx cdz dimension asBytes tmo) retries (unrecorded s)";
        simp add: getChunks_def Let_def split: sum.splits)
  show v: "fst (getVersion (recording ext) retries tmo s)
     = fst (getVersion ext retries tmo (unrecorded s))" for retries tmo
    using priv_unrecorded(1) [of ext "getVersion_request (self s) tmo" retries s]
    by (cases "priv_get (recording ext) (getVersion_request (self s) tmo) retries s";
        cases "priv_get ext (getVersion_request (self s) tmo) retries (unrecorded s)";
        simp add: getVersion_def split: sum.splits)
  show "fst (checkConnection (recording ext) s) = fst (checkConnection ext (unrecorded s))"
    using v [of 0 None]
    by (cases "getVersion (recording ext) 0 None s";
        cases "getVersion ext 0 None (unrecorded s)";
        simp add: checkConnection_def split: sum.splits)
qed



section \<open>The request each method builds\<close>

text \<open>
  C1 (fails on the code). The claim wants every typed argument the caller sets in the
  query parameters, and names the dimension of \<open>placeBlock\<close>. Whatever dimension the caller
  passes to \<open>placeBlock\<close>, the parameters of its request have no entry \<open>dimension\<close>:
  the method builds them from the coordinates and the block-update flags alone.
\<close>

theorem placeBlock_request_without_dimension:
  "params (placeBlock_request this x y z blockStr (Some d) doBlockUpdates spawnDrops customFlags tmo)
     ''dimension'' = None"
  by (simp add: placeBlock_request_def Let_def map_add_def)

text \<open>
  C8. An interface made without a host argument has the host \<^verbatim>\<open>http://localhost:9000\<close>.
  Run against library functions that note their calls, with nothing noted before, every
  method sends a request, and each request it sends goes, with the verb of the endpoint, to
  the host of the interface followed by the fixed path of the endpoint: \<^verbatim>\<open>GET /blocks\<close>
  for \<open>getBlock\<close>, \<^verbatim>\<open>PUT /blocks\<close> for \<open>placeBlock\<close>, \<^verbatim>\<open>POST /command\<close> for
  \<open>runCommand\<close>, \<^verbatim>\<open>GET /buildarea\<close> for \<open>getBuildArea\<close>, \<^verbatim>\<open>GET /chunks\<close> for
  \<open>getChunks\<close>, \<^verbatim>\<open>GET /version\<close> for \<open>getVersion\<close> and \<open>checkConnection\<close>.
\<close>

theorem endpoint_methods_urls:
  assumes "sent s = []"
  shows "host (HTTPInterface_init None) = ''http://localhost:9000''
   \<and> set (map verb_url (sent (snd (getBlock (recording ext) x y z dx dy dz dimension includeState
                                      includeData retries tmo s))))
       = {(GET, host (self s) @ ''/blocks'')}
   \<and> set (map verb_url (sent (snd (placeBlock (recording ext) x y z blockStr dimension doBlockUpdates
                                      spawnDrops customFlags retries tmo s))))
       = {(PUT, host (self s) @ ''/blocks'')}
   \<and> set (map verb_url (sent (snd (runCommand (recording ext) command dimension retries tmo s))))
       = {(POST, host (self s) @ ''/command'')}
   \<and> set (map verb_url (sent (snd (getBuildArea (recording ext) retries tmo s))))
       = {(GET, host (self s) @ ''/buildarea'')}
   \<and> set (map verb_url (sent (snd (getChunks (recording ext) cx cz cdx cdz dimension asBytes
                                      retries tmo s))))
       = {(GET, host (self s) @ ''/chunks'')}
   \<and> set (map verb_url (sent (snd (getVersion (recording ext) retries tmo s))))
       = {(GET, host (self s) @ ''/version'')}
   \<and> set (map verb_url (sent (snd (checkConnection (recording ext) s))))
       = {(GET, host (self s) @ ''/version'')}"
  by (simp add: methods_send [OF assms] verb_url_def request_urls HTTPInterface_init_def)

text \<open>
  On an interface with the default host and a server that refuses every connection: each
  method, retries included, sends to \<^verbatim>\<open>http://localhost:9000\<close> and its path only.
\<close>

theorem endpoint_methods_urls_witness:
  "sent fresh_recording = []
   \<and> set (map verb_url (sent (snd (getBlock (recording (stand_in refusing)) 0 64 0 None None None
                                      None False False 2 None fresh_recording))))
       = {(GET, ''http://localhost:9000/blocks'')}
   \<and> set (map verb_url (sent (snd (placeBlock (recording (stand_in refusing)) 0 64 0 ''stone'' None
                                      True True '''' 2 None fresh_recording))))
       = {(PUT, ''http://localhost:9000/blocks'')}
   \<and> set (map verb_url (sent (snd (runCommand (recording (stand_in refusing)) ''say hi'' None 2 None
                                      fresh_recording))))
       = {(POST, ''http://localhost:9000/command'')}
   \<and> set (map verb_url (sent (snd (getBuildArea (recording (stand_in refusing)) 2 None
                                      fresh_recording))))
       = {(GET, ''http://localhost:9000/buildarea'')}
   \<and> set (map verb_url (sent (snd (getChunks (recording (stand_in refusing)) 0 0 1 1 None
                                      False 2 None fresh_recording))))
       = {(GET, ''http://localhost:9000/chunks'')}
   \<and> set (map verb_url (sent (snd (getVersion (recording (stand_in refusing)) 2 None
                                      fresh_recording))))
       = {(GET, ''http://localhost:9000/version'')}
   \<and> set (map verb_url (sent (snd (checkConnection (recording (stand_in refusing))
                                      fresh_recording))))
       = {(GET, ''http://localhost:9000/version'')}"
  using endpoint_methods_urls [OF sent_fresh_recording,
      where ext = "stand_in refusing" and x = 0 and y = 64 and z = 0 and dx = None and dy = None
        and dz = None and dimension = None and includeState = False and includeData = False
        and retries = 2 and tmo = None and blockStr = "''stone''" and doBlockUpdates = True
        and spawnDrops = True and customFlags = "''''" and command = "''say hi''"
        and cx = 0 and cz = 0 and cdx = 1 and cdz = 1 and asBytes = False]
  by (simp add: host_fresh_recording sent_fresh_recording)

text \<open>
  C10. Run against library functions that note their calls, with nothing noted before,
  \<open>placeBlock\<close> sends a request, and in each request it sends: when \<open>customFlags\<close> is not
  the empty string, the parameters hold \<open>customFlags\<close> with the caller's value and hold
  neither \<open>doBlockUpdates\<close> nor \<open>spawnDrops\<close>; when it is the empty string, they hold
  \<open>doBlockUpdates\<close> and \<open>spawnDrops\<close> with the caller's values and do not hold
  \<open>customFlags\<close>.
\<close>

theorem placeBlock_sends_update_params:
  assumes "sent s = []"
  shows "(customFlags \<noteq> '''' \<longrightarrow>
            set (map update_params
                   (sent (snd (placeBlock (recording ext) x y z blockStr dimension doBlockUpdates
                                 spawnDrops customFlags retries tmo s))))
              = {(Some (PStr customFlags), None, None)})
       \<and> (customFlags = '''' \<longrightarrow>
            set (map update_params
                   (sent (snd (placeBlock (recording ext) x y z blockStr dimension doBlockUpdates
                                 spawnDrops customFlags retries tmo s))))
              = {(None, Some (PBool doBlockUpdates), Some (PBool spawnDrops))})"
  by (simp add: methods_send(2) [OF assms] placeBlock_request_params)

text \<open>Both cases on a concrete call: custom flags \<^verbatim>\<open>0100011\<close>, and none.\<close>

theorem placeBlock_sends_update_params_witness:
  "sent fresh_recording = []
   \<and> set (map update_params
            (sent (snd (placeBlock (recording (stand_in refusing)) 1 2 3 ''stone'' None True False
                          ''0100011'' 2 None fresh_recording))))
       = {(Some (PStr ''0100011''), None, None)}
   \<and> set (map update_params
            (sent (snd (placeBlock (recording (stand_in refusing)) 1 2 3 ''stone'' None True False
                          '''' 2 None fresh_recording))))
       = {(None, Some (PBool True), Some (PBool False))}"
  using placeBlock_sends_update_params [OF sent_fresh_recording,
      where customFlags = "''0100011''" and ext = "stand_in refusing" and x = 1 and y = 2 and z = 3
        and blockStr = "''stone''" and dimension = None and doBlockUpdates = True
        and spawnDrops = False and retries = 2 and tmo = None]
    placeBlock_sends_update_params [OF sent_fresh_recording,
      where customFlags = "''''" and ext = "stand_in refusing" and x = 1 and y = 2 and z = 3
        and blockStr = "''stone''" and dimension = None and doBlockUpdates = True
        and spawnDrops = False and retries = 2 and tmo = None]
  by (simp add: sent_fresh_recording)



section \<open>The retrying call wrapper: what a run does\<close>

text \<open>
  C2. Let the wrapper run with a retry count \<open>N \<ge> 0\<close> on an operation that raises a
  connection failure at every invocation. Then the operation is invoked exactly \<open>N + 1\<close>
  times and the notification callback exactly \<open>N\<close> times; the callback receives, in order,
  the exception of each attempt but the last, with the retry counts \<open>N, N - 1, \<dots>, 1\<close>
  that were left at that moment; and the outcome of the run is the failure of the last
  attempt, a connection failure, handed to the caller. The log does not alter the run: its
  result and final state are those of the run without it.
\<close>

theorem withRetries_always_failing:
  assumes "0 \<le> N" and "\<forall>s. \<exists>m. fst (operation s) = Inl (RequestConnectionError m)"
  shows "case withRetries (logged operation) N (logged_onRetry onRetry) (s, []) of
           (r, s', tr) \<Rightarrow>
             length (attempts tr) = nat N + 1
           \<and> length (notifications tr) = nat N
           \<and> map snd (notifications tr) = map (\<lambda>i. N - int i) [0..<nat N]
           \<and> map (Inl \<circ> fst) (notifications tr) = butlast (attempts tr)
           \<and> r = last (attempts tr)
           \<and> (\<exists>m. r = Inl (RequestConnectionError m))
           \<and> withRetries operation N onRetry s = (r, s')"
proof -
  from always_failing_run [OF assms(2), of "nat N" onRetry s "[]"] assms(1)
  obtain r s' tr where
    run: "withRetries (logged operation) N (logged_onRetry onRetry) (s, []) = (r, s', tr)"
    and facts: "length (attempts tr) = nat N + 1" "length (notifications tr) = nat N"
      "map snd (notifications tr) = map (\<lambda>i. N - int i) [0..<nat N]"
      "map (Inl \<circ> fst) (notifications tr) = butlast (attempts tr)"
      "r = last (attempts tr)" "\<exists>m. r = Inl (RequestConnectionError m)"
    by auto
  have "withRetries operation N onRetry s = (r, s')"
    using logged_faithful [of operation N onRetry s "[]"] run by simp
  with run facts show ?thesis by simp
qed

text \<open>
  The operation and the callback of \<open>priv_get\<close> against a server that cannot be reached,
  with two retries: three attempts, two notifications with the counts 2 and 1.
\<close>

theorem withRetries_always_failing_witness:
  "(0::int) \<le> 2
   \<and> (\<forall>s. \<exists>m. fst (partial refusing (getVersion_request (HTTPInterface_init None) None) s)
                 = Inl (RequestConnectionError m))
   \<and> (case withRetries (logged (partial refusing (getVersion_request (HTTPInterface_init None) None)))
              2 (logged_onRetry (onRequestRetry (stand_in refusing))) (fresh, []) of
         (r, s', tr) \<Rightarrow>
           length (attempts tr) = 3
         \<and> length (notifications tr) = 2
         \<and> map snd (notifications tr) = [2, 1]
         \<and> map (Inl \<circ> fst) (notifications tr) = butlast (attempts tr)
         \<and> r = last (attempts tr)
         \<and> (\<exists>m. r = Inl (RequestConnectionError m)))"
proof -
  have h: "\<forall>s. \<exists>m. fst (partial refusing (getVersion_request (HTTPInterface_init None) None) s)
                 = Inl (RequestConnectionError m)"
    by (simp add: partial_def refusing_def)
  have e: "map (\<lambda>i. 2 - int i) [0..<2] = [2, 1]" by (simp add: upt_rec)
  show ?thesis
    using h withRetries_always_failing [OF _ h, of 2 "onRequestRetry (stand_in refusing)" fresh]
    by (auto simp: e split: prod.splits)
qed

text \<open>
  C6. When the first attempt raises a failure that is not a connection failure, the run of
  the wrapper, whatever its retry count, is that one attempt: the operation is invoked
  once, the callback never, and the failure is handed to the caller with the state the
  attempt left.
\<close>

theorem withRetries_other_failure:
  assumes "operation s = (Inl e, s1)" and "\<not> is_RequestConnectionError e"
  shows "case withRetries (logged operation) retries (logged_onRetry onRetry) (s, []) of
           (r, s', tr) \<Rightarrow>
             r = Inl e \<and> s' = s1
           \<and> length (attempts tr) = 1
           \<and> notifications tr = []
           \<and> withRetries operation retries onRetry s = (Inl e, s1)"
proof -
  have "withRetries (logged operation) retries (logged_onRetry onRetry) (s, [])
          = (Inl e, s1, [Attempt (Inl e)])"
    using assms by (subst withRetries.simps) (simp add: logged_apply)
  moreover have "withRetries operation retries onRetry s = (Inl e, s1)"
    using assms by (subst withRetries.simps) simp
  ultimately show ?thesis by simp
qed

text \<open>An operation whose answer cannot be decoded, with five retries: one attempt.\<close>

theorem withRetries_other_failure_witness:
  "(case withRetries
           (logged (\<lambda>s::unit. (Inl (JSONDecodeError ''Expecting value'') :: exn + response, s)))
           5 (logged_onRetry (\<lambda>e k s. s)) ((), []) of
      (r, s', tr) \<Rightarrow>
        r = Inl (JSONDecodeError ''Expecting value'')
      \<and> length (attempts tr) = 1
      \<and> notifications tr = [])"
  using withRetries_other_failure
    [of "\<lambda>s::unit. (Inl (JSONDecodeError ''Expecting value'') :: exn + response, s)" "()"
        "JSONDecodeError ''Expecting value''" "()" 5 "\<lambda>e k s. s"]
  by (auto split: prod.splits)


section \<open>What the methods return\<close>

text \<open>
  C3 (as amended). Let the call of \<open>getBuildArea\<close> have received the response \<open>r\<close>.
  If the status of \<open>r\<close> is not a success, or its body decodes to a JSON value equal to
  \<open>-1\<close>, the method returns \<open>(False, text of r)\<close>. If the status is a success and the body
  decodes to a JSON object that holds the six fields, it returns \<open>(True, t)\<close> with \<open>t\<close> the
  values of \<open>xFrom, yFrom, zFrom, xTo, yTo, zTo\<close> in this order. Conversely, whenever it
  returns \<open>(False, t)\<close> the response was of the first kind and \<open>t\<close> is its text, and whenever
  it returns \<open>(True, t)\<close> the response was of the second kind and \<open>t\<close> holds its six
  fields. So for any other response the method does not return: it raises.
\<close>

theorem getBuildArea_result:
  assumes "priv_get ext (getBuildArea_request (self s) tmo) retries s = (Inr r, s')"
  shows
    "((\<not> ok r \<or> (\<exists>j. json r = Inr j \<and> py_eq_int j (- 1))) \<longrightarrow>
        getBuildArea ext retries tmo s = (Inr (False, Inl (text_str r)), s'))
     \<and> (ok r \<and> json r = Inr (JDict kvs)
          \<and> map_of kvs ''xFrom'' = Some x1 \<and> map_of kvs ''yFrom'' = Some y1
          \<and> map_of kvs ''zFrom'' = Some z1 \<and> map_of kvs ''xTo'' = Some x2
          \<and> map_of kvs ''yTo'' = Some y2 \<and> map_of kvs ''zTo'' = Some z2 \<longrightarrow>
        getBuildArea ext retries tmo s = (Inr (True, Inr (x1, y1, z1, x2, y2, z2)), s'))
     \<and> (fst (getBuildArea ext retries tmo s) = Inr (False, t) \<longrightarrow>
        t = Inl (text_str r) \<and> (\<not> ok r \<or> (\<exists>j. json r = Inr j \<and> py_eq_int j (- 1))))
     \<and> (fst (getBuildArea ext retries tmo s) = Inr (True, t) \<longrightarrow>
        ok r \<and> (\<exists>d a1 b1 c1 a2 b2 c2. json r = Inr (JDict d)
          \<and> map_of d ''xFrom'' = Some a1 \<and> map_of d ''yFrom'' = Some b1
          \<and> map_of d ''zFrom'' = Some c1 \<and> map_of d ''xTo'' = Some a2
          \<and> map_of d ''yTo'' = Some b2 \<and> map_of d ''zTo'' = Some c2
          \<and> t = Inr (a1, b1, c1, a2, b2, c2)))"
proof (intro conjI impI)
  assume "\<not> ok r \<or> (\<exists>j. json r = Inr j \<and> py_eq_int j (- 1))"
  then show "getBuildArea ext retries tmo s = (Inr (False, Inl (text_str r)), s')"
    using assms by (auto simp: getBuildArea_def)
next
  assume "ok r \<and> json r = Inr (JDict kvs)
          \<and> map_of kvs ''xFrom'' = Some x1 \<and> map_of kvs ''yFrom'' = Some y1
          \<and> map_of kvs ''zFrom'' = Some z1 \<and> map_of kvs ''xTo'' = Some x2
          \<and> map_of kvs ''yTo'' = Some y2 \<and> map_of kvs ''zTo'' = Some z2"
  then show "getBuildArea ext retries tmo s = (Inr (True, Inr (x1, y1, z1, x2, y2, z2)), s')"
    using assms by (simp add: getBuildArea_def and_then_def)
next
  assume f: "fst (getBuildArea ext retries tmo s) = Inr (False, t)"
  show "t = Inl (text_str r)"
    using assms f
    by (auto simp: getBuildArea_def and_then_def split: if_splits sum.splits)
  show "\<not> ok r \<or> (\<exists>j. json r = Inr j \<and> py_eq_int j (- 1))"
    using assms f
    by (auto simp: getBuildArea_def and_then_def split: if_splits sum.splits)
next
  assume f: "fst (getBuildArea ext retries tmo s) = Inr (True, t)"
  show "ok r"
    using assms f by (auto simp: getBuildArea_def split: if_splits)
  show "\<exists>d a1 b1 c1 a2 b2 c2. json r = Inr (JDict d)
          \<and> map_of d ''xFrom'' = Some a1 \<and> map_of d ''yFrom'' = Some b1
          \<and> map_of d ''zFrom'' = Some c1 \<and> map_of d ''xTo'' = Some a2
          \<and> map_of d ''yTo'' = Some b2 \<and> map_of d ''zTo'' = Some c2
          \<and> t = Inr (a1, b1, c1, a2, b2, c2)"
    using assms f
    by (auto simp: getBuildArea_def and_then_Inr getitem_Inr simp del: getitem.simps
        split: if_splits sum.splits)
qed

text \<open>
  A build area answered as an object of six numbers, the sentinel \<open>-1\<close>, and a status 404.
\<close>

theorem getBuildArea_result_witness:
  "getBuildArea
     (stand_in (answering (json_reply ''{...}''
        (JDict [(''xFrom'', JInt 0), (''yFrom'', JInt (- 64)), (''zFrom'', JInt 0),
                (''xTo'', JInt 127), (''yTo'', JInt 319), (''zTo'', JInt 127)]))))
     5 None fresh
     = (Inr (True, Inr (JInt 0, JInt (- 64), JInt 0, JInt 127, JInt 319, JInt 127)), fresh)
   \<and> getBuildArea (stand_in (answering (json_reply ''-1'' (JInt (- 1))))) 5 None fresh
     = (Inr (False, Inl ''-1''), fresh)
   \<and> getBuildArea (stand_in (answering (plain_reply 404 ''Not found''))) 5 None fresh
     = (Inr (False, Inl ''Not found''), fresh)"
proof -
  let ?kvs = "[(''xFrom'', JInt 0), (''yFrom'', JInt (- 64)), (''zFrom'', JInt 0),
               (''xTo'', JInt 127), (''yTo'', JInt 319), (''zTo'', JInt 127)]"
  let ?r1 = "json_reply ''{...}'' (JDict ?kvs)"
  let ?r2 = "json_reply ''-1'' (JInt (- 1))"
  let ?r3 = "plain_reply 404 ''Not found''"
  have m1: "ok ?r1 \<and> json ?r1 = Inr (JDict ?kvs)
          \<and> map_of ?kvs ''xFrom'' = Some (JInt 0) \<and> map_of ?kvs ''yFrom'' = Some (JInt (- 64))
          \<and> map_of ?kvs ''zFrom'' = Some (JInt 0) \<and> map_of ?kvs ''xTo'' = Some (JInt 127)
          \<and> map_of ?kvs ''yTo'' = Some (JInt 319) \<and> map_of ?kvs ''zTo'' = Some (JInt 127)"
    by (simp add: json_reply_def)
  have m2: "\<not> ok ?r2 \<or> (\<exists>j. json ?r2 = Inr j \<and> py_eq_int j (- 1))"
    by (simp add: json_reply_def)
  have m3: "\<not> ok ?r3 \<or> (\<exists>j. json ?r3 = Inr j \<and> py_eq_int j (- 1))"
    by (simp add: plain_reply_def)
  have t2: "text_str ?r2 = ''-1''" by (simp add: json_reply_def)
  have t3: "text_str ?r3 = ''Not found''" by (simp add: plain_reply_def)
  note a = getBuildArea_result [OF stand_in_get(1), THEN conjunct2, THEN conjunct1, THEN mp, OF m1]
  note b = getBuildArea_result [OF stand_in_get(1), THEN conjunct1, THEN mp, OF m2]
  note c = getBuildArea_result [OF stand_in_get(1), THEN conjunct1, THEN mp, OF m3]
  show ?thesis using a b c unfolding t2 t3 by blast
qed

text \<open>
  C3 as the spec states it fails: a success response whose JSON body is the empty object
  is neither a failure nor the sentinel, and the method raises \<^verbatim>\<open>KeyError\<close> instead of
  returning a pair.
\<close>

theorem getBuildArea_raises_on_empty_object:
  "fst (getBuildArea (stand_in (answering (json_reply ''{}'' (JDict [])))) 5 None fresh)
     = Inl (KeyError ''xFrom'')"
  by (simp add: getBuildArea_def stand_in_get json_reply_def and_then_def)



text \<open>
  C4. \<open>checkConnection\<close> asks for the version with zero retries (and no timeout). If that
  call raises a connection failure, it returns \<open>(False, None)\<close>; if the call returns a
  version string, it returns \<open>(True, b)\<close> with \<open>b\<close> true exactly when the string is in the
  list of supported versions. A failure of any other class is not caught and goes on to
  the caller.
\<close>

theorem checkConnection_result:
  "(getVersion ext 0 None s = (Inl (RequestConnectionError m), s') \<longrightarrow>
      checkConnection ext s = (Inr (False, None), s'))
   \<and> (getVersion ext 0 None s = (Inr v, s') \<longrightarrow>
      checkConnection ext s
        = (Inr (True, Some (v \<in> set (SUPPORTED_MINECRAFT_VERSIONS ext))), s'))
   \<and> (getVersion ext 0 None s = (Inl e, s') \<and> \<not> is_RequestConnectionError e \<longrightarrow>
      checkConnection ext s = (Inl e, s'))"
  by (simp add: checkConnection_def)

text \<open>
  A server that cannot be reached, one that reports a supported version and one that
  reports another version.
\<close>

theorem checkConnection_result_witness:
  "checkConnection (stand_in refusing) fresh = (Inr (False, None), fresh)
   \<and> checkConnection (stand_in (answering (plain_reply 200 ''1.19.2''))) fresh
       = (Inr (True, Some True), fresh)
   \<and> checkConnection (stand_in (answering (plain_reply 200 ''1.16.5''))) fresh
       = (Inr (True, Some False), fresh)"
proof -
  let ?r1 = "plain_reply 200 ''1.19.2''"
  let ?r2 = "plain_reply 200 ''1.16.5''"
  have t: "text_str ?r1 = ''1.19.2''" "text_str ?r2 = ''1.16.5''"
    by (simp_all add: plain_reply_def)
  note a = checkConnection_result [THEN conjunct1, THEN mp, OF getVersion_refusing]
  note b = checkConnection_result [THEN conjunct2, THEN conjunct1, THEN mp,
      OF getVersion_answering [of ?r1 0]]
  note c = checkConnection_result [THEN conjunct2, THEN conjunct1, THEN mp,
      OF getVersion_answering [of ?r2 0]]
  show ?thesis using a b c by (simp add: t stand_in_fields)
qed

text \<open>
  C5 (as amended). When \<open>placeBlock\<close> or \<open>runCommand\<close> has received a response, it returns
  the text of that response split at the line feeds: the number of result strings is one
  more than the number of line feeds in the response text. It is the number of lines of
  the input exactly when the response has as many line feeds as the input has.
\<close>

theorem result_count_is_reply_lines:
  "(priv_put ext
      (placeBlock_request (self s) x y z blockStr dimension doBlockUpdates spawnDrops customFlags tmo)
      retries s = (Inr r, s') \<longrightarrow>
    (\<exists>rs. placeBlock ext x y z blockStr dimension doBlockUpdates spawnDrops customFlags retries tmo s
            = (Inr rs, s')
        \<and> rs = str_split CHR 0x0A (text_str r)
        \<and> length rs = Suc (count_list (text_str r) CHR 0x0A)
        \<and> (length rs = length (str_split CHR 0x0A blockStr))
            = (count_list (text_str r) CHR 0x0A = count_list blockStr CHR 0x0A)))
   \<and> (priv_post ext (runCommand_request (self s) command dimension tmo) retries s = (Inr r, s') \<longrightarrow>
    (\<exists>rs. runCommand ext command dimension retries tmo s = (Inr rs, s')
        \<and> rs = str_split CHR 0x0A (text_str r)
        \<and> length rs = Suc (count_list (text_str r) CHR 0x0A)
        \<and> (length rs = length (str_split CHR 0x0A command))
            = (count_list (text_str r) CHR 0x0A = count_list command CHR 0x0A)))"
  by (simp add: placeBlock_def runCommand_def length_str_split)

text \<open>Two blocks answered with two lines; two commands answered with one line.\<close>

theorem result_count_is_reply_lines_witness:
  "placeBlock (stand_in (answering (plain_reply 200 ''1\<newline>0''))) 0 64 0 ''stone\<newline>dirt'' None True False
      '''' 5 None fresh = (Inr [''1'', ''0''], fresh)
   \<and> runCommand (stand_in (answering (plain_reply 200 ''Unknown command''))) ''say hi\<newline>say ho'' None
      5 None fresh = (Inr [''Unknown command''], fresh)"
proof -
  let ?r1 = "plain_reply 200 ''1\<newline>0''"
  let ?r2 = "plain_reply 200 ''Unknown command''"
  have s1: "str_split CHR 0x0A (text_str ?r1) = [''1'', ''0'']"
    and s2: "str_split CHR 0x0A (text_str ?r2) = [''Unknown command'']"
    by (simp_all add: plain_reply_def)
  have g1: "priv_put (stand_in (answering ?r1))
      (placeBlock_request (self fresh) 0 64 0 ''stone\<newline>dirt'' None True False '''' None)
      5 fresh = (Inr ?r1, fresh)"
    by (rule stand_in_get)
  have g2: "priv_post (stand_in (answering ?r2))
      (runCommand_request (self fresh) ''say hi\<newline>say ho'' None None)
      5 fresh = (Inr ?r2, fresh)"
    by (rule stand_in_get)
  from result_count_is_reply_lines [THEN conjunct1, THEN mp, OF g1]
  have p: "placeBlock (stand_in (answering ?r1)) 0 64 0 ''stone\<newline>dirt'' None
      True False '''' 5 None fresh = (Inr [''1'', ''0''], fresh)"
    unfolding s1 by blast
  from result_count_is_reply_lines [THEN conjunct2, THEN mp, OF g2]
  have q: "runCommand (stand_in (answering ?r2)) ''say hi\<newline>say ho'' None
      5 None fresh = (Inr [''Unknown command''], fresh)"
    unfolding s2 by blast
  from p q show ?thesis by simp
qed

text \<open>
  C5 as the spec states it fails: for a block string of two lines, a server that answers
  with one line makes \<open>placeBlock\<close> return one result string.
\<close>

theorem placeBlock_count_differs:
  "fst (placeBlock (stand_in (answering (plain_reply 200 ''1''))) 0 0 0 ''stone\<newline>dirt'' None True False
          '''' 5 None fresh) = Inr [''1'']
   \<and> length (str_split CHR 0x0A ''stone\<newline>dirt'') = 2"
  by (simp add: placeBlock_def stand_in_get plain_reply_def)

text \<open>
  C7. When \<open>getChunks\<close> has received a response, it returns the raw content if \<open>asBytes\<close>
  is set and the decoded text if not; a status of 400 or more adds one line, \<^verbatim>\<open>Error: \<close>
  followed by the response text, to standard error and changes nothing else, so the body is
  returned all the same and nothing is raised. The request carries the header \<^verbatim>\<open>Accept\<close>
  with \<^verbatim>\<open>application/octet-stream\<close> if \<open>asBytes\<close> is set and \<^verbatim>\<open>text/plain\<close> if not.
\<close>

theorem getChunks_result:
  assumes "priv_get ext (getChunks_request (self s) x z dx dz dimension asBytes tmo) retries s
             = (Inr r, s')"
  shows "fst (getChunks ext x z dx dz dimension asBytes retries tmo s)
           = Inr (if asBytes then Bytes (content r) else Text (text_str r))
       \<and> snd (getChunks ext x z dx dz dimension asBytes retries tmo s)
           = (if 400 \<le> status_code r then s'\<lparr>stderr := stderr s' @ [''Error: '' @ text_str r]\<rparr> else s')
       \<and> headers (getChunks_request (self s) x z dx dz dimension asBytes tmo) ''Accept''
           = Some (if asBytes then ''application/octet-stream'' else ''text/plain'')"
  using assms by (simp add: getChunks_def getChunks_request_def Let_def eprint_def)

text \<open>A status 404 read as text, and a status 200 read as bytes.\<close>

theorem getChunks_result_witness:
  "getChunks (stand_in (answering (plain_reply 404 ''No chunk''))) 0 0 1 1 None False 5 None fresh
     = (Inr (Text ''No chunk''),
        fresh\<lparr>stderr := stderr fresh @ [''Error: No chunk'']\<rparr>)
   \<and> getChunks (stand_in (answering (plain_reply 200 ''NBT''))) 0 0 1 1 None True 5 None fresh
     = (Inr (Bytes ''NBT''), fresh)
   \<and> headers (getChunks_request (self fresh) 0 0 1 1 None True None) ''Accept''
     = Some ''application/octet-stream''
   \<and> headers (getChunks_request (self fresh) 0 0 1 1 None False None) ''Accept''
     = Some ''text/plain''"
proof -
  let ?r1 = "plain_reply 404 ''No chunk''"
  let ?r2 = "plain_reply 200 ''NBT''"
  have f1: "status_code ?r1 = 404" "text_str ?r1 = ''No chunk''"
    and f2: "status_code ?r2 = 200" "content ?r2 = ''NBT''"
    by (simp_all add: plain_reply_def)
  have g1: "priv_get (stand_in (answering ?r1))
      (getChunks_request (self fresh) 0 0 1 1 None False None) 5 fresh = (Inr ?r1, fresh)"
    by (rule stand_in_get)
  have g2: "priv_get (stand_in (answering ?r2))
      (getChunks_request (self fresh) 0 0 1 1 None True None) 5 fresh = (Inr ?r2, fresh)"
    by (rule stand_in_get)
  note a = getChunks_result [OF g1]
  note b = getChunks_result [OF g2]
  show ?thesis using a b unfolding f1 f2 by (simp add: prod_eq_iff)
qed


section \<open>The object is left as it was\<close>

text \<open>
  C9. Whatever the server does and however the call ends, after each of the seven methods
  the host of the interface is what it was before the call.
\<close>

theorem methods_keep_host:
  "host (self (snd (getBlock ext x y z dx dy dz dimension includeState includeData retries tmo s)))
     = host (self s)
   \<and> host (self (snd (placeBlock ext x y z blockStr dimension doBlockUpdates spawnDrops customFlags
                         retries tmo s))) = host (self s)
   \<and> host (self (snd (runCommand ext command dimension retries tmo s))) = host (self s)
   \<and> host (self (snd (getBuildArea ext retries tmo s))) = host (self s)
   \<and> host (self (snd (getChunks ext cx cz cdx cdz dimension asBytes retries tmo s))) = host (self s)
   \<and> host (self (snd (getVersion ext retries tmo s))) = host (self s)
   \<and> host (self (snd (checkConnection ext s))) = host (self s)"
proof (intro conjI)
  show "host (self (snd (getBlock ext x y z dx dy dz dimension includeState includeData retries tmo s)))
     = host (self s)"
    using priv_keeps_self(1)
      [of ext "getBlock_request (self s) x y z dx dy dz dimension includeState includeData tmo" retries s]
    by (auto simp: getBlock_def split: prod.splits sum.splits)
  show "host (self (snd (placeBlock ext x y z blockStr dimension doBlockUpdates spawnDrops customFlags
                         retries tmo s))) = host (self s)"
    using priv_keeps_self(2)
      [of ext "placeBlock_request (self s) x y z blockStr dimension doBlockUpdates spawnDrops
                 customFlags tmo" retries s]
    by (auto simp: placeBlock_def split: prod.splits sum.splits)
  show "host (self (snd (runCommand ext command dimension retries tmo s))) = host (self s)"
    using priv_keeps_self(3) [of ext "runCommand_request (self s) command dimension tmo" retries s]
    by (auto simp: runCommand_def split: prod.splits sum.splits)
  show "host (self (snd (getBuildArea ext retries tmo s))) = host (self s)"
    using priv_keeps_self(1) [of ext "getBuildArea_request (self s) tmo" retries s]
    by (auto simp: getBuildArea_def split: prod.splits sum.splits)
  show "host (self (snd (getChunks ext cx cz cdx cdz dimension asBytes retries tmo s))) = host (self s)"
    using priv_keeps_self(1)
      [of ext "getChunks_request (self s) cx cz cdx cdz dimension asBytes tmo" retries s]
    by (auto simp: getChunks_def Let_def eprint_def split: prod.splits sum.splits)
  show "host (self (snd (getVersion ext retries tmo s))) = host (self s)"
    by (simp add: getVersion_keeps_self)
  show "host (self (snd (checkConnection ext s))) = host (self s)"
    using getVersion_keeps_self [of ext 0 None s]
    by (auto simp: checkConnection_def split: prod.splits sum.splits)
qed

end
